theory Spec2Isabelle
  imports Complex_Main
begin

section \<open>The rdb access layer (src/include/rdb.h)\<close>

text \<open>
  The header wraps the C interface of the embedded engine.  The wrappers are embedded
  function by function.  The engine itself is no part of the repository: its entry points
  are taken as parameters (the record \<open>sqlite3\<close> for the statement interface, a function
  \<open>sqlite3_exec\<close> for the connection interface), over an arbitrary type of engine states.
  A call of a wrapper takes the state the handle refers to and returns the state it
  leaves, together with either the returned value or the exception thrown.
\<close>

subsection \<open>Exceptions and status codes\<close>

text \<open>
  \<open>SQLiteException\<close> is the class of rdb.h, lines 13-16 (the message is its payload).
  \<open>CallbackException\<close> stands for any other exception, thrown by a caller's callback.
\<close>

datatype exn = SQLiteException string | CallbackException string

type_synonym double = real

abbreviation (input) SQLITE_OK :: int where "SQLITE_OK \<equiv> 0"
abbreviation (input) SQLITE_ERROR :: int where "SQLITE_ERROR \<equiv> 1"
abbreviation (input) SQLITE_MISUSE :: int where "SQLITE_MISUSE \<equiv> 21"
abbreviation (input) SQLITE_RANGE :: int where "SQLITE_RANGE \<equiv> 25"
abbreviation (input) SQLITE_ROW :: int where "SQLITE_ROW \<equiv> 100"
abbreviation (input) SQLITE_DONE :: int where "SQLITE_DONE \<equiv> 101"

subsection \<open>Database::execute and Database::Transaction\<close>

text \<open>
  \<open>sqlite3_exec db sql\<close> returns the status code, the error message (a null pointer is
  \<open>None\<close>) and the state of the connection afterwards.

  rdb.h, lines 48-55: any status other than \<open>SQLITE_OK\<close> is thrown as a
  \<open>SQLiteException\<close> carrying the message, or \<open>Unknown error\<close> when there is none.
\<close>

definition execute ::
  "('d \<Rightarrow> string \<Rightarrow> int \<times> string option \<times> 'd) \<Rightarrow> string \<Rightarrow> 'd \<Rightarrow> (exn + unit) \<times> 'd" where
  "execute sqlite3_exec sql db =
     (case sqlite3_exec db sql of
        (rc, errmsg, db') \<Rightarrow>
          if rc \<noteq> SQLITE_OK
          then (Inl (SQLiteException (case errmsg of Some m \<Rightarrow> m | None \<Rightarrow> ''Unknown error'')), db')
          else (Inr (), db'))"

text \<open>
  rdb.h, lines 58-66.  The member \<open>db_\<close> is a reference to the connection, whose state is
  passed explicitly; the object itself holds the flag \<open>active_\<close> (here \<open>active\<close>),
  initialised to true.
\<close>

record Transaction =
  active :: bool

text \<open>The constructor issues BEGIN; when that throws, no object exists.\<close>

definition Transaction_ctor ::
  "('d \<Rightarrow> string \<Rightarrow> int \<times> string option \<times> 'd) \<Rightarrow> 'd \<Rightarrow> (exn + Transaction) \<times> 'd" where
  "Transaction_ctor sqlite3_exec db =
     (case execute sqlite3_exec ''BEGIN;'' db of
        (Inl e, db') \<Rightarrow> (Inl e, db')
      | (Inr _, db') \<Rightarrow> (Inr \<lparr>active = True\<rparr>, db'))"

text \<open>\<open>commit\<close> and \<open>rollback\<close>: the flag is cleared by the statement after \<open>execute\<close>,
  which is not reached when \<open>execute\<close> throws.\<close>

definition commit ::
  "('d \<Rightarrow> string \<Rightarrow> int \<times> string option \<times> 'd) \<Rightarrow> Transaction \<Rightarrow> 'd
     \<Rightarrow> (exn + unit) \<times> Transaction \<times> 'd" where
  "commit sqlite3_exec t db =
     (case execute sqlite3_exec ''COMMIT;'' db of
        (Inl e, db') \<Rightarrow> (Inl e, t, db')
      | (Inr _, db') \<Rightarrow> (Inr (), t\<lparr>active := False\<rparr>, db'))"

definition rollback ::
  "('d \<Rightarrow> string \<Rightarrow> int \<times> string option \<times> 'd) \<Rightarrow> Transaction \<Rightarrow> 'd
     \<Rightarrow> (exn + unit) \<times> Transaction \<times> 'd" where
  "rollback sqlite3_exec t db =
     (case execute sqlite3_exec ''ROLLBACK;'' db of
        (Inl e, db') \<Rightarrow> (Inl e, t, db')
      | (Inr _, db') \<Rightarrow> (Inr (), t\<lparr>active := False\<rparr>, db'))"

text \<open>The body of the destructor (line 63).\<close>

definition Transaction_dtor_body ::
  "('d \<Rightarrow> string \<Rightarrow> int \<times> string option \<times> 'd) \<Rightarrow> Transaction \<Rightarrow> 'd \<Rightarrow> (exn + unit) \<times> 'd" where
  "Transaction_dtor_body sqlite3_exec t db =
     (if active t then execute sqlite3_exec ''ROLLBACK;'' db else (Inr (), db))"

text \<open>
  The destructor is declared without an exception specification, so it is \<open>noexcept\<close>
  (the header is C++14: it uses \<open>std::make_unique\<close>): an exception that leaves its body
  ends the program through \<open>std::terminate\<close>, whether or not another exception is
  unwinding the stack.
\<close>

datatype 'd destroyed = Destroyed 'd | Terminated exn 'd

definition Transaction_dtor ::
  "('d \<Rightarrow> string \<Rightarrow> int \<times> string option \<times> 'd) \<Rightarrow> Transaction \<Rightarrow> 'd \<Rightarrow> 'd destroyed" where
  "Transaction_dtor sqlite3_exec t db =
     (case Transaction_dtor_body sqlite3_exec t db of
        (Inl e, db') \<Rightarrow> Terminated e db'
      | (Inr _, db') \<Rightarrow> Destroyed db')"

text \<open>
  A block \<open>{ Transaction txn(db); body }\<close>, as in example.cpp, lines 22-29.  The body is
  any code using the scope and the connection; it returns or throws.  The destructor runs
  when the block is left, on both paths; the outcome of the block is the outcome of the
  body, unless the constructor threw (no body, no destructor) or the destructor
  terminated the program.
\<close>

datatype ('a, 'd) block = Left "exn + 'a" 'd | Aborted exn 'd

definition Transaction_scope ::
  "('d \<Rightarrow> string \<Rightarrow> int \<times> string option \<times> 'd)
     \<Rightarrow> (Transaction \<Rightarrow> 'd \<Rightarrow> (exn + 'a) \<times> Transaction \<times> 'd) \<Rightarrow> 'd \<Rightarrow> ('a, 'd) block" where
  "Transaction_scope sqlite3_exec body db =
     (case Transaction_ctor sqlite3_exec db of
        (Inl e, db1) \<Rightarrow> Left (Inl e) db1
      | (Inr t, db1) \<Rightarrow>
          (case body t db1 of
             (r, t2, db2) \<Rightarrow>
               (case Transaction_dtor sqlite3_exec t2 db2 of
                  Terminated e db3 \<Rightarrow> Aborted e db3
                | Destroyed db3 \<Rightarrow> Left r db3)))"

text \<open>A body that only executes statements on the connection, one after the other; the
  first exception leaves the body.\<close>

fun execute_all ::
  "('d \<Rightarrow> string \<Rightarrow> int \<times> string option \<times> 'd) \<Rightarrow> string list \<Rightarrow> 'd \<Rightarrow> (exn + unit) \<times> 'd" where
  "execute_all sqlite3_exec [] db = (Inr (), db)"
| "execute_all sqlite3_exec (sql # sqls) db =
     (case execute sqlite3_exec sql db of
        (Inl e, db') \<Rightarrow> (Inl e, db')
      | (Inr _, db') \<Rightarrow> execute_all sqlite3_exec sqls db')"

subsection \<open>Statement\<close>

text \<open>
  The entry points of the engine that \<open>Statement\<close> calls on its handle \<open>stmt_\<close>, over the
  state \<open>'h\<close> that the handle gives access to.  The binding and stepping functions return
  the engine's status code and the new state.  \<open>sqlite3_column_text\<close> returns a pointer,
  which is null (\<open>None\<close>) or points to a string.  \<open>sqlite3_errmsg\<close> is the message of the
  connection of the statement, \<open>sqlite3_errmsg(sqlite3_db_handle(stmt_))\<close>.
\<close>

record 'h sqlite3 =
  sqlite3_bind_int :: "'h \<Rightarrow> int \<Rightarrow> int \<Rightarrow> int \<times> 'h"
  sqlite3_bind_double :: "'h \<Rightarrow> int \<Rightarrow> double \<Rightarrow> int \<times> 'h"
  sqlite3_bind_text :: "'h \<Rightarrow> int \<Rightarrow> string \<Rightarrow> int \<times> 'h"
  sqlite3_bind_parameter_index :: "'h \<Rightarrow> string \<Rightarrow> int"
  sqlite3_step :: "'h \<Rightarrow> int \<times> 'h"
  sqlite3_reset :: "'h \<Rightarrow> int \<times> 'h"
  sqlite3_column_int :: "'h \<Rightarrow> int \<Rightarrow> int"
  sqlite3_column_double :: "'h \<Rightarrow> int \<Rightarrow> double"
  sqlite3_column_text :: "'h \<Rightarrow> int \<Rightarrow> string option"
  sqlite3_errmsg :: "'h \<Rightarrow> string"

text \<open>Positional binding (lines 96-100): the status code is not looked at.\<close>

definition bind_int :: "'h sqlite3 \<Rightarrow> int \<Rightarrow> int \<Rightarrow> 'h \<Rightarrow> (exn + unit) \<times> 'h" where
  "bind_int E index val stmt = (Inr (), snd (sqlite3_bind_int E stmt index val))"

definition bind_double :: "'h sqlite3 \<Rightarrow> int \<Rightarrow> double \<Rightarrow> 'h \<Rightarrow> (exn + unit) \<times> 'h" where
  "bind_double E index val stmt = (Inr (), snd (sqlite3_bind_double E stmt index val))"

definition bind_text :: "'h sqlite3 \<Rightarrow> int \<Rightarrow> string \<Rightarrow> 'h \<Rightarrow> (exn + unit) \<times> 'h" where
  "bind_text E index val stmt = (Inr (), snd (sqlite3_bind_text E stmt index val))"

text \<open>Named binding (lines 103-114): the index is looked up, and nothing is bound when
  it is 0.\<close>

definition bind_name_int :: "'h sqlite3 \<Rightarrow> string \<Rightarrow> int \<Rightarrow> 'h \<Rightarrow> (exn + unit) \<times> 'h" where
  "bind_name_int E name val stmt =
     (let idx = sqlite3_bind_parameter_index E stmt name
      in if idx \<noteq> 0 then (Inr (), snd (sqlite3_bind_int E stmt idx val)) else (Inr (), stmt))"

definition bind_name_double :: "'h sqlite3 \<Rightarrow> string \<Rightarrow> double \<Rightarrow> 'h \<Rightarrow> (exn + unit) \<times> 'h" where
  "bind_name_double E name val stmt =
     (let idx = sqlite3_bind_parameter_index E stmt name
      in if idx \<noteq> 0 then (Inr (), snd (sqlite3_bind_double E stmt idx val)) else (Inr (), stmt))"

definition bind_name_text :: "'h sqlite3 \<Rightarrow> string \<Rightarrow> string \<Rightarrow> 'h \<Rightarrow> (exn + unit) \<times> 'h" where
  "bind_name_text E name val stmt =
     (let idx = sqlite3_bind_parameter_index E stmt name
      in if idx \<noteq> 0 then (Inr (), snd (sqlite3_bind_text E stmt idx val)) else (Inr (), stmt))"

text \<open>\<open>step\<close> (lines 116-121), \<open>reset\<close> (line 123) and the getters (lines 125-130).\<close>

definition step :: "'h sqlite3 \<Rightarrow> 'h \<Rightarrow> (exn + bool) \<times> 'h" where
  "step E stmt =
     (case sqlite3_step E stmt of
        (rc, stmt') \<Rightarrow>
          if rc = SQLITE_ROW then (Inr True, stmt')
          else if rc = SQLITE_DONE then (Inr False, stmt')
          else (Inl (SQLiteException (sqlite3_errmsg E stmt')), stmt'))"

definition reset :: "'h sqlite3 \<Rightarrow> 'h \<Rightarrow> (exn + unit) \<times> 'h" where
  "reset E stmt = (Inr (), snd (sqlite3_reset E stmt))"

definition getInt :: "'h sqlite3 \<Rightarrow> int \<Rightarrow> 'h \<Rightarrow> int" where
  "getInt E col stmt = sqlite3_column_int E stmt col"

definition getDouble :: "'h sqlite3 \<Rightarrow> int \<Rightarrow> 'h \<Rightarrow> double" where
  "getDouble E col stmt = sqlite3_column_double E stmt col"

definition getText :: "'h sqlite3 \<Rightarrow> int \<Rightarrow> 'h \<Rightarrow> string" where
  "getText E col stmt = (case sqlite3_column_text E stmt col of Some txt \<Rightarrow> txt | None \<Rightarrow> '''')"

text \<open>
  \<open>forEachRow\<close> (lines 133-136).  The callback gets the statement and may use it in any
  way, change what it has captured (the state \<open>'u\<close>), and throw.  The loop need not end, so
  the result is optional: \<open>None\<close> is a call that does not return.
\<close>

partial_function (option) forEachRow ::
  "'h sqlite3 \<Rightarrow> ('h \<Rightarrow> 'u \<Rightarrow> (exn + unit) \<times> 'h \<times> 'u) \<Rightarrow> 'h \<Rightarrow> 'u
     \<Rightarrow> ((exn + unit) \<times> 'h \<times> 'u) option" where
  "forEachRow E fn stmt u =
     (case step E stmt of
        (Inl e, stmt1) \<Rightarrow> Some (Inl e, stmt1, u)
      | (Inr has_row, stmt1) \<Rightarrow>
          if has_row then
            (case fn stmt1 u of
               (Inl e, stmt2, u2) \<Rightarrow> Some (Inl e, stmt2, u2)
             | (Inr _, stmt2, u2) \<Rightarrow> forEachRow E fn stmt2 u2)
          else
            (case reset E stmt1 of
               (Inl e, stmt2) \<Rightarrow> Some (Inl e, stmt2, u)
             | (Inr _, stmt2) \<Rightarrow> Some (Inr (), stmt2, u)))"

declare forEachRow.simps [code]

text \<open>
  \<open>mapRows\<close> (lines 139-144): the callback handed to \<open>forEachRow\<close> captures the local vector
  \<open>results\<close> and appends what the mapper returns; when an exception leaves \<open>forEachRow\<close>,
  the vector is gone.
\<close>

definition mapRows ::
  "'h sqlite3 \<Rightarrow> ('h \<Rightarrow> (exn + 'a) \<times> 'h) \<Rightarrow> 'h \<Rightarrow> ((exn + 'a list) \<times> 'h) option" where
  "mapRows E mapper stmt =
     (case forEachRow E
             (\<lambda>row results.
                case mapper row of
                  (Inl e, row') \<Rightarrow> (Inl e, row', results)
                | (Inr x, row') \<Rightarrow> (Inr (), row', results @ [x]))
             stmt [] of
        None \<Rightarrow> None
      | Some (Inl e, stmt', results) \<Rightarrow> Some (Inl e, stmt')
      | Some (Inr _, stmt', results) \<Rightarrow> Some (Inr results, stmt'))"

text \<open>
  The three specialisations of \<open>column\<close> (lines 161-183) are the same loop around a
  different getter: \<open>column_loop\<close> is that loop, with the vector \<open>res\<close> built so far.
\<close>

partial_function (option) column_loop ::
  "'h sqlite3 \<Rightarrow> ('h \<Rightarrow> 'a) \<Rightarrow> 'h \<Rightarrow> 'a list \<Rightarrow> ((exn + 'a list) \<times> 'h) option" where
  "column_loop E get stmt res =
     (case step E stmt of
        (Inl e, stmt1) \<Rightarrow> Some (Inl e, stmt1)
      | (Inr has_row, stmt1) \<Rightarrow>
          if has_row then column_loop E get stmt1 (res @ [get stmt1])
          else
            (case reset E stmt1 of
               (Inl e, stmt2) \<Rightarrow> Some (Inl e, stmt2)
             | (Inr _, stmt2) \<Rightarrow> Some (Inr res, stmt2)))"

declare column_loop.simps [code]

definition column_int :: "'h sqlite3 \<Rightarrow> int \<Rightarrow> 'h \<Rightarrow> ((exn + int list) \<times> 'h) option" where
  "column_int E colIndex stmt = column_loop E (getInt E colIndex) stmt []"

definition column_double :: "'h sqlite3 \<Rightarrow> int \<Rightarrow> 'h \<Rightarrow> ((exn + double list) \<times> 'h) option" where
  "column_double E colIndex stmt = column_loop E (getDouble E colIndex) stmt []"

definition column_text :: "'h sqlite3 \<Rightarrow> int \<Rightarrow> 'h \<Rightarrow> ((exn + string list) \<times> 'h) option" where
  "column_text E colIndex stmt = column_loop E (getText E colIndex) stmt []"

text \<open>
  The handle states that a query visits when it produces \<open>length rs\<close> rows and is then
  done: each step that reports \<open>SQLITE_ROW\<close> leads to the next state of \<open>rs\<close>, and the
  step after the last one reports \<open>SQLITE_DONE\<close> and leads to \<open>hx\<close>.
\<close>

fun produces :: "'h sqlite3 \<Rightarrow> 'h \<Rightarrow> 'h list \<Rightarrow> 'h \<Rightarrow> bool" where
  "produces E h [] hx = (sqlite3_step E h = (SQLITE_DONE, hx))"
| "produces E h (r # rs) hx = (sqlite3_step E h = (SQLITE_ROW, r) \<and> produces E r rs hx)"

text \<open>A callback that returns normally and leaves the statement as it is: it reads the
  row and updates what it has captured.\<close>

definition reading :: "('h \<Rightarrow> 'u \<Rightarrow> 'u) \<Rightarrow> 'h \<Rightarrow> 'u \<Rightarrow> (exn + unit) \<times> 'h \<times> 'u" where
  "reading g row u = (Inr (), row, g row u)"

text \<open>The mapper that extracts one column of the current row.\<close>

definition extracting :: "('h \<Rightarrow> 'a) \<Rightarrow> 'h \<Rightarrow> (exn + 'a) \<times> 'h" where
  "extracting get row = (Inr (get row), row)"

text \<open>\<open>n\<close> rounds of the loop of \<open>forEachRow\<close> in which \<open>step\<close> reports a row and the
  callback returns.\<close>

fun rounds ::
  "'h sqlite3 \<Rightarrow> ('h \<Rightarrow> 'u \<Rightarrow> (exn + unit) \<times> 'h \<times> 'u) \<Rightarrow> nat \<Rightarrow> 'h \<Rightarrow> 'u \<Rightarrow> ('h \<times> 'u) option" where
  "rounds E fn 0 stmt u = Some (stmt, u)"
| "rounds E fn (Suc n) stmt u =
     (case step E stmt of
        (Inr True, stmt1) \<Rightarrow>
          (case fn stmt1 u of
             (Inr _, stmt2, u2) \<Rightarrow> rounds E fn n stmt2 u2
           | (Inl e, stmt2, u2) \<Rightarrow> None)
      | (Inr False, stmt1) \<Rightarrow> None
      | (Inl e, stmt1) \<Rightarrow> None)"

subsection \<open>A reference engine\<close>

text \<open>
  Modelled from the spec: the native engine (sqlite3) is not part of the repository.
  The connection follows section 4.5 of the specification: \<open>BEGIN\<close> opens a transaction
  and fails when one is active, \<open>COMMIT\<close> and \<open>ROLLBACK\<close> close it and fail when none is
  active, and \<open>ROLLBACK\<close> undoes every statement issued since \<open>BEGIN\<close>.  The content of
  the database is any type \<open>'st\<close>; what a statement other than these three does to it is
  the parameter \<open>run\<close> (its error message, or the new content).  A failed statement
  changes nothing.  \<open>issued\<close> records the SQL received, in order.
\<close>

record 'st ref_db =
  store :: 'st
  snapshot :: "'st option"
  issued :: "string list"

definition ref_exec ::
  "(string \<Rightarrow> 'st \<Rightarrow> string + 'st) \<Rightarrow> 'st ref_db \<Rightarrow> string \<Rightarrow> int \<times> string option \<times> 'st ref_db" where
  "ref_exec run db0 sql =
     (let db = db0\<lparr>issued := issued db0 @ [sql]\<rparr> in
      if sql = ''BEGIN;'' then
        (case snapshot db of
           Some s \<Rightarrow> (SQLITE_ERROR, Some ''cannot start a transaction within a transaction'', db)
         | None \<Rightarrow> (SQLITE_OK, None, db\<lparr>snapshot := Some (store db)\<rparr>))
      else if sql = ''COMMIT;'' then
        (case snapshot db of
           None \<Rightarrow> (SQLITE_ERROR, Some ''cannot commit - no transaction is active'', db)
         | Some s \<Rightarrow> (SQLITE_OK, None, db\<lparr>snapshot := None\<rparr>))
      else if sql = ''ROLLBACK;'' then
        (case snapshot db of
           None \<Rightarrow> (SQLITE_ERROR, Some ''cannot rollback - no transaction is active'', db)
         | Some s \<Rightarrow> (SQLITE_OK, None, db\<lparr>store := s, snapshot := None\<rparr>))
      else
        (case run sql (store db) of
           Inl msg \<Rightarrow> (SQLITE_ERROR, Some msg, db)
         | Inr st \<Rightarrow> (SQLITE_OK, None, db\<lparr>store := st\<rparr>)))"

text \<open>
  Modelled from the spec: the statement interface of the native engine, after sections 3
  and 4.2 of the specification.  A compiled statement has parameters (named or not),
  numbered from 1, a value bound to each, and a cursor that is \<open>Ready\<close>, \<open>HasRow\<close> or
  \<open>Exhausted\<close>.  The compiled query is the parameter \<open>program\<close>: run on the bound values and
  the content of the database, it gives the new content and what the following steps
  report, a row or a failure each, and then the end of the rows.  A row is what the three
  column accessors return for it at each column index; a text column that is NULL is
  \<open>None\<close>.  A step from \<open>Ready\<close> runs the program and reports the first event, a step from
  \<open>HasRow\<close> reports the next one; \<open>Exhausted\<close> is left by reset only.  Reset returns to
  \<open>Ready\<close> and keeps the bound values.  Binding overwrites the value at an index in range
  and reports \<open>SQLITE_RANGE\<close> otherwise.
\<close>

datatype cursor = Ready | HasRow | Exhausted

datatype sql_value = Integer int | Float double | Text string | Null

record row =
  as_int :: "int \<Rightarrow> int"
  as_double :: "int \<Rightarrow> double"
  as_text :: "int \<Rightarrow> string option"

datatype event = Row row | Fail string

record 'st ref_stmt =
  params :: "string option list"
  bound :: "sql_value list"
  program :: "sql_value list \<Rightarrow> 'st \<Rightarrow> event list \<times> 'st"
  database :: 'st
  cursor :: cursor
  pending :: "event list"
  current :: row
  errmsg :: string

definition ref_bind :: "'st ref_stmt \<Rightarrow> int \<Rightarrow> sql_value \<Rightarrow> int \<times> 'st ref_stmt" where
  "ref_bind h i v =
     (if 1 \<le> i \<and> i \<le> int (length (params h))
      then (SQLITE_OK, h\<lparr>bound := (bound h)[nat (i - 1) := v]\<rparr>)
      else (SQLITE_RANGE, h))"

fun ref_parameter_index :: "string option list \<Rightarrow> string \<Rightarrow> int" where
  "ref_parameter_index [] name = 0"
| "ref_parameter_index (p # ps) name =
     (if p = Some name then 1
      else (let k = ref_parameter_index ps name in if k = 0 then 0 else k + 1))"

definition ref_advance :: "'st ref_stmt \<Rightarrow> int \<times> 'st ref_stmt" where
  "ref_advance h =
     (case pending h of
        [] \<Rightarrow> (SQLITE_DONE, h\<lparr>cursor := Exhausted\<rparr>)
      | Row r # evs \<Rightarrow> (SQLITE_ROW, h\<lparr>cursor := HasRow, pending := evs, current := r\<rparr>)
      | Fail msg # evs \<Rightarrow> (SQLITE_ERROR, h\<lparr>cursor := Exhausted, pending := [], errmsg := msg\<rparr>))"

definition ref_step :: "'st ref_stmt \<Rightarrow> int \<times> 'st ref_stmt" where
  "ref_step h =
     (case cursor h of
        Ready \<Rightarrow>
          (case program h (bound h) (database h) of
             (evs, st) \<Rightarrow> ref_advance (h\<lparr>database := st, pending := evs\<rparr>))
      | HasRow \<Rightarrow> ref_advance h
      | Exhausted \<Rightarrow> (SQLITE_MISUSE, h\<lparr>errmsg := ''bad parameter or other API misuse''\<rparr>))"

definition ref_reset :: "'st ref_stmt \<Rightarrow> int \<times> 'st ref_stmt" where
  "ref_reset h = (SQLITE_OK, h\<lparr>cursor := Ready, pending := []\<rparr>)"

definition ref_sqlite3 :: "'st ref_stmt sqlite3" where
  "ref_sqlite3 =
     \<lparr>sqlite3_bind_int = (\<lambda>h i v. ref_bind h i (Integer v)),
      sqlite3_bind_double = (\<lambda>h i v. ref_bind h i (Float v)),
      sqlite3_bind_text = (\<lambda>h i v. ref_bind h i (Text v)),
      sqlite3_bind_parameter_index = (\<lambda>h name. ref_parameter_index (params h) name),
      sqlite3_step = ref_step,
      sqlite3_reset = ref_reset,
      sqlite3_column_int = (\<lambda>h col. as_int (current h) col),
      sqlite3_column_double = (\<lambda>h col. as_double (current h) col),
      sqlite3_column_text = (\<lambda>h col. as_text (current h) col),
      sqlite3_errmsg = errmsg\<rparr>"

subsection \<open>Auxiliary definitions\<close>

text \<open>The callback that \<open>mapRows\<close> hands to \<open>forEachRow\<close> when the mapper extracts a
  value with \<open>get\<close>, and the result that \<open>mapRows\<close> makes of the outcome of \<open>forEachRow\<close>.\<close>

definition collect :: "('h \<Rightarrow> 'a) \<Rightarrow> 'h \<Rightarrow> 'a list \<Rightarrow> (exn + unit) \<times> 'h \<times> 'a list" where
  "collect get row results = (Inr (), row, results @ [get row])"

fun unwrap :: "(exn + unit) \<times> 'h \<times> 'a list \<Rightarrow> (exn + 'a list) \<times> 'h" where
  "unwrap (Inl e, h, res) = (Inl e, h)"
| "unwrap (Inr _, h, res) = (Inr res, h)"

text \<open>The body of a block that executes the statements \<open>sqls\<close> on the connection and does
  not touch the scope.\<close>

definition statements ::
  "('d \<Rightarrow> string \<Rightarrow> int \<times> string option \<times> 'd) \<Rightarrow> string list \<Rightarrow> Transaction \<Rightarrow> 'd
     \<Rightarrow> (exn + unit) \<times> Transaction \<times> 'd" where
  "statements sqlite3_exec sqls t db =
     (case execute_all sqlite3_exec sqls db of (r, db') \<Rightarrow> (r, t, db'))"

text \<open>The body \<open>db.execute("COMMIT;"); txn.commit();\<close>.\<close>

definition commit_by_hand_then_commit ::
  "('d \<Rightarrow> string \<Rightarrow> int \<times> string option \<times> 'd) \<Rightarrow> Transaction \<Rightarrow> 'd
     \<Rightarrow> (exn + unit) \<times> Transaction \<times> 'd" where
  "commit_by_hand_then_commit sqlite3_exec t db =
     (case execute sqlite3_exec ''COMMIT;'' db of
        (Inl e, db1) \<Rightarrow> (Inl e, t, db1)
      | (Inr _, db1) \<Rightarrow> commit sqlite3_exec t db1)"

text \<open>A database for the examples: its content is the list of the statements applied to
  it; the empty statement is an error.\<close>

definition journal :: "string \<Rightarrow> string list \<Rightarrow> string + string list" where
  "journal sql st = (if sql = [] then Inl ''syntax error'' else Inr (st @ [sql]))"

definition fresh_db :: "string list ref_db" where
  "fresh_db = \<lparr>store = [], snapshot = None, issued = []\<rparr>"

text \<open>Statements for the examples.  \<open>players_stmt\<close> is a query with two result rows, an
  integer in column 0 and a text in column 1, which is NULL in the second row.
  \<open>insert_stmt\<close> is \<open>INSERT INTO t(v) VALUES(:v)\<close> on the empty table \<open>t\<close>, the content of
  the database being the column \<open>v\<close> in insertion order.\<close>

definition player :: "int \<Rightarrow> string option \<Rightarrow> row" where
  "player i name =
     \<lparr>as_int = (\<lambda>col. if col = 0 then i else 0),
      as_double = (\<lambda>col. if col = 0 then of_int i else 0),
      as_text = (\<lambda>col. if col = 1 then name else None)\<rparr>"

definition players_stmt :: "unit ref_stmt" where
  "players_stmt =
     \<lparr>params = [], bound = [],
      program = (\<lambda>bs st. ([Row (player 1 (Some ''Alice'')), Row (player 2 None)], st)),
      database = (), cursor = Ready, pending = [], current = player 0 None, errmsg = []\<rparr>"

definition insert_stmt :: "sql_value list ref_stmt" where
  "insert_stmt =
     \<lparr>params = [Some '':v''], bound = [Null],
      program = (\<lambda>bs t. ([], t @ [hd bs])),
      database = [], cursor = Ready, pending = [], current = player 0 None, errmsg = []\<rparr>"

text \<open>\<open>failing_stmt\<close> is a query whose second step fails.\<close>

definition failing_stmt :: "unit ref_stmt" where
  "failing_stmt =
     \<lparr>params = [], bound = [],
      program = (\<lambda>bs st. ([Row (player 1 (Some ''Alice'')), Fail ''disk I/O error''], st)),
      database = (), cursor = Ready, pending = [], current = player 0 None, errmsg = []\<rparr>"

text \<open>The states in which a statement of the reference engine shows the rows \<open>rows\<close>,
  one after the other, when they are all that is pending.\<close>

fun visited :: "'st ref_stmt \<Rightarrow> row list \<Rightarrow> 'st ref_stmt list" where
  "visited h [] = []"
| "visited h (r # rs) =
     (let h' = h\<lparr>cursor := HasRow, pending := map Row rs, current := r\<rparr> in h' # visited h' rs)"

text \<open>A callback that counts its calls, and one that throws.\<close>

definition counting :: "'h \<Rightarrow> nat \<Rightarrow> (exn + unit) \<times> 'h \<times> nat" where
  "counting row n = (Inr (), row, Suc n)"

definition throwing :: "'h \<Rightarrow> nat \<Rightarrow> (exn + unit) \<times> 'h \<times> nat" where
  "throwing row n = (Inl (CallbackException ''stop''), row, n)"

text \<open>The scenario of section 8 of the specification on \<open>insert_stmt\<close>: bind \<open>:v\<close> to
  \<open>a\<close>, step, reset, bind \<open>:v\<close> to \<open>b\<close>, step.  The result is the outcome of the two steps
  and the final state.\<close>

definition insert_twice ::
  "sql_value list ref_stmt \<Rightarrow> (exn + bool) \<times> (exn + bool) \<times> sql_value list ref_stmt" where
  "insert_twice s0 =
     (let s1 = snd (bind_name_text ref_sqlite3 '':v'' ''a'' s0);
          (r2, s2) = step ref_sqlite3 s1;
          s3 = snd (reset ref_sqlite3 s2);
          s4 = snd (bind_name_text ref_sqlite3 '':v'' ''b'' s3);
          (r5, s5) = step ref_sqlite3 s4
      in (r2, r5, s5))"

section \<open>Verification\<close>

subsection \<open>Facts about the connection wrappers\<close>

lemma execute_cases:
  obtains (ok) db' where "execute exec sql db = (Inr (), db')"
  | (throws) e db' where "execute exec sql db = (Inl e, db')"
proof (cases "execute exec sql db")
  case (Pair r db')
  then show ?thesis
    by (cases r) (auto intro: ok throws)
qed

lemma commit_result:
  assumes "commit exec t db = (r, t', db')"
  shows "(r = Inr () \<and> t' = t\<lparr>active := False\<rparr>) \<or> ((\<exists>e. r = Inl e) \<and> t' = t)"
  using assms by (cases rule: execute_cases [of exec "''COMMIT;''" db])
    (auto simp: commit_def)

lemma rollback_result:
  assumes "rollback exec t db = (r, t', db')"
  shows "(r = Inr () \<and> t' = t\<lparr>active := False\<rparr>) \<or> ((\<exists>e. r = Inl e) \<and> t' = t)"
  using assms by (cases rule: execute_cases [of exec "''ROLLBACK;''" db])
    (auto simp: rollback_def)

lemma ctor_active:
  "Transaction_ctor exec db0 = (Inr t, db1) \<Longrightarrow> active t"
  by (cases rule: execute_cases [of exec "''BEGIN;''" db0]) (auto simp: Transaction_ctor_def)

lemma dtor_inactive:
  "\<not> active t \<Longrightarrow> Transaction_dtor exec t db = Destroyed db"
  by (simp add: Transaction_dtor_def Transaction_dtor_body_def)

subsection \<open>Facts about the reference connection\<close>

lemma ref_begin:
  "snapshot db = None \<Longrightarrow>
   execute (ref_exec run) ''BEGIN;'' db =
     (Inr (), db\<lparr>issued := issued db @ [''BEGIN;''], snapshot := Some (store db)\<rparr>)"
  by (simp add: execute_def ref_exec_def Let_def)

lemma ref_rollback:
  "snapshot db = Some s \<Longrightarrow>
   execute (ref_exec run) ''ROLLBACK;'' db =
     (Inr (), db\<lparr>issued := issued db @ [''ROLLBACK;''], store := s, snapshot := None\<rparr>)"
  by (simp add: execute_def ref_exec_def Let_def)

subsection \<open>Claims on transactions\<close>

text \<open>
  Claim C1, as amended.  A scope as the constructor made it issues \<open>ROLLBACK\<close> on the
  connection when it is destroyed, whatever the connection has become.  After a call of
  \<open>commit\<close> or \<open>rollback\<close> that returned normally, the destructor leaves the connection as
  it is, on any engine: it issues no SQL.  On the reference engine, take a block that
  begins with no transaction active and any body at all (statements executed on the
  connection, prepared statements stepped, calls that throw): when the body ends,
  normally or with an exception, with the scope still pending and the transaction that
  the scope began still the open one, the block is left with the outcome of the body, the
  last SQL issued is the \<open>ROLLBACK\<close> of the destructor, and the content of the database is
  what it was before the block.
\<close>

theorem Transaction_destruction:
  "(Transaction_ctor exec db0 = (Inr t, db1) \<longrightarrow>
      Transaction_dtor_body exec t db = execute exec ''ROLLBACK;'' db)
   \<and> (commit exec t db = (Inr (), t', db') \<longrightarrow> Transaction_dtor exec2 t' db2 = Destroyed db2)
   \<and> (rollback exec t db = (Inr (), t'', db'') \<longrightarrow> Transaction_dtor exec2 t'' db2 = Destroyed db2)
   \<and> (snapshot d = None \<and> Transaction_ctor (ref_exec run) d = (Inr s, d1)
        \<and> body s d1 = (r, s2, d2) \<and> active s2 \<and> snapshot d2 = snapshot d1 \<longrightarrow>
        (\<exists>d'. Transaction_scope (ref_exec run) body d = Left r d'
           \<and> store d' = store d \<and> snapshot d' = None
           \<and> issued d' = issued d2 @ [''ROLLBACK;'']))"
proof (intro conjI impI)
  assume "Transaction_ctor exec db0 = (Inr t, db1)"
  then have "active t"
    by (rule ctor_active)
  then show "Transaction_dtor_body exec t db = execute exec ''ROLLBACK;'' db"
    by (simp add: Transaction_dtor_body_def)
next
  assume "commit exec t db = (Inr (), t', db')"
  from commit_result [OF this] have "\<not> active t'"
    by auto
  then show "Transaction_dtor exec2 t' db2 = Destroyed db2"
    by (rule dtor_inactive)
next
  assume "rollback exec t db = (Inr (), t'', db'')"
  from rollback_result [OF this] have "\<not> active t''"
    by auto
  then show "Transaction_dtor exec2 t'' db2 = Destroyed db2"
    by (rule dtor_inactive)
next
  assume a: "snapshot d = None \<and> Transaction_ctor (ref_exec run) d = (Inr s, d1)
        \<and> body s d1 = (r, s2, d2) \<and> active s2 \<and> snapshot d2 = snapshot d1"
  then have none: "snapshot d = None" and ctor: "Transaction_ctor (ref_exec run) d = (Inr s, d1)"
    and body: "body s d1 = (r, s2, d2)" and pending: "active s2"
    and kept: "snapshot d2 = snapshot d1"
    by simp_all
  from ctor have "d1 = d\<lparr>issued := issued d @ [''BEGIN;''], snapshot := Some (store d)\<rparr>"
    by (simp add: Transaction_ctor_def ref_begin [OF none])
  with kept have opened: "snapshot d2 = Some (store d)"
    by simp
  let ?d3 = "d2\<lparr>issued := issued d2 @ [''ROLLBACK;''], store := store d, snapshot := None\<rparr>"
  from pending have "Transaction_dtor (ref_exec run) s2 d2 = Destroyed ?d3"
    by (simp add: Transaction_dtor_def Transaction_dtor_body_def ref_rollback [OF opened])
  with ctor body have "Transaction_scope (ref_exec run) body d = Left r ?d3"
    by (simp add: Transaction_scope_def)
  moreover have "store ?d3 = store d" "snapshot ?d3 = None"
    "issued ?d3 = issued d2 @ [''ROLLBACK;'']"
    by simp_all
  ultimately show "\<exists>d'. Transaction_scope (ref_exec run) body d = Left r d'
           \<and> store d' = store d \<and> snapshot d' = None
           \<and> issued d' = issued d2 @ [''ROLLBACK;'']"
    by blast
qed

lemma ctor_fresh:
  "Transaction_ctor (ref_exec journal) fresh_db =
     (Inr \<lparr>active = True\<rparr>, \<lparr>store = [], snapshot = Some [], issued = [''BEGIN;'']\<rparr>)"
  by (simp add: Transaction_ctor_def execute_def ref_exec_def fresh_db_def Let_def)

text \<open>
  The theorem at a connection with a journal as content: the scope as constructed, a
  commit and a rollback that return, and a block whose body executes three statements,
  the second of which is in error, so that the body throws after the first has changed
  the database.
\<close>

theorem Transaction_destruction_witness:
  "Transaction_ctor (ref_exec journal) fresh_db =
     (Inr \<lparr>active = True\<rparr>, \<lparr>store = [], snapshot = Some [], issued = [''BEGIN;'']\<rparr>)
   \<and> Transaction_dtor_body (ref_exec journal) \<lparr>active = True\<rparr>
        \<lparr>store = [''INSERT 1''], snapshot = Some [], issued = [''BEGIN;'', ''INSERT 1'']\<rparr> =
      execute (ref_exec journal) ''ROLLBACK;''
        \<lparr>store = [''INSERT 1''], snapshot = Some [], issued = [''BEGIN;'', ''INSERT 1'']\<rparr>
   \<and> commit (ref_exec journal) \<lparr>active = True\<rparr>
        \<lparr>store = [''INSERT 1''], snapshot = Some [], issued = [''BEGIN;'', ''INSERT 1'']\<rparr> =
      (Inr (), \<lparr>active = False\<rparr>,
        \<lparr>store = [''INSERT 1''], snapshot = None, issued = [''BEGIN;'', ''INSERT 1'', ''COMMIT;'']\<rparr>)
   \<and> rollback (ref_exec journal) \<lparr>active = True\<rparr>
        \<lparr>store = [''INSERT 1''], snapshot = Some [], issued = [''BEGIN;'', ''INSERT 1'']\<rparr> =
      (Inr (), \<lparr>active = False\<rparr>,
        \<lparr>store = [], snapshot = None, issued = [''BEGIN;'', ''INSERT 1'', ''ROLLBACK;'']\<rparr>)
   \<and> Transaction_dtor (ref_exec journal) \<lparr>active = False\<rparr> fresh_db = Destroyed fresh_db
   \<and> snapshot fresh_db = None
   \<and> statements (ref_exec journal) [''INSERT 1'', [], ''INSERT 2''] \<lparr>active = True\<rparr>
        \<lparr>store = [], snapshot = Some [], issued = [''BEGIN;'']\<rparr> =
      (Inl (SQLiteException ''syntax error''), \<lparr>active = True\<rparr>,
        \<lparr>store = [''INSERT 1''], snapshot = Some [], issued = [''BEGIN;'', ''INSERT 1'', []]\<rparr>)
   \<and> Transaction_scope (ref_exec journal)
        (statements (ref_exec journal) [''INSERT 1'', [], ''INSERT 2'']) fresh_db =
      Left (Inl (SQLiteException ''syntax error''))
        \<lparr>store = [], snapshot = None, issued = [''BEGIN;'', ''INSERT 1'', [], ''ROLLBACK;'']\<rparr>"
proof -
  let ?db = "\<lparr>store = [''INSERT 1''], snapshot = Some [], issued = [''BEGIN;'', ''INSERT 1'']\<rparr>"
  let ?d1 = "\<lparr>store = [], snapshot = Some [], issued = [''BEGIN;'']\<rparr> :: string list ref_db"
  let ?d2 = "\<lparr>store = [''INSERT 1''], snapshot = Some [], issued = [''BEGIN;'', ''INSERT 1'', []]\<rparr>"
  let ?body = "statements (ref_exec journal) [''INSERT 1'', [], ''INSERT 2'']"
  have c: "commit (ref_exec journal) \<lparr>active = True\<rparr> ?db =
      (Inr (), \<lparr>active = False\<rparr>,
        \<lparr>store = [''INSERT 1''], snapshot = None, issued = [''BEGIN;'', ''INSERT 1'', ''COMMIT;'']\<rparr>)"
    by (simp add: commit_def execute_def ref_exec_def Let_def)
  have r: "rollback (ref_exec journal) \<lparr>active = True\<rparr> ?db =
      (Inr (), \<lparr>active = False\<rparr>,
        \<lparr>store = [], snapshot = None, issued = [''BEGIN;'', ''INSERT 1'', ''ROLLBACK;'']\<rparr>)"
    by (simp add: rollback_def execute_def ref_exec_def Let_def)
  have n: "snapshot fresh_db = None"
    by (simp add: fresh_db_def)
  have b: "?body \<lparr>active = True\<rparr> ?d1 =
      (Inl (SQLiteException ''syntax error''), \<lparr>active = True\<rparr>, ?d2)"
    by (simp add: statements_def execute_def ref_exec_def journal_def Let_def)
  have k: "active \<lparr>active = True\<rparr>" "snapshot ?d2 = snapshot ?d1"
    by simp_all
  note T = Transaction_destruction [where exec = "ref_exec journal" and ?db0.0 = fresh_db
      and t = "\<lparr>active = True\<rparr>" and ?db1.0 = ?d1 and db = ?db
      and t' = "\<lparr>active = False\<rparr>"
      and db' = "\<lparr>store = [''INSERT 1''], snapshot = None,
                  issued = [''BEGIN;'', ''INSERT 1'', ''COMMIT;'']\<rparr>"
      and ?exec2.0 = "ref_exec journal" and ?db2.0 = fresh_db
      and t'' = "\<lparr>active = False\<rparr>"
      and db'' = "\<lparr>store = [], snapshot = None, issued = [''BEGIN;'', ''INSERT 1'', ''ROLLBACK;'']\<rparr>"
      and d = fresh_db and run = journal and s = "\<lparr>active = True\<rparr>" and ?d1.0 = ?d1
      and body = ?body and r = "Inl (SQLiteException ''syntax error'')"
      and ?s2.0 = "\<lparr>active = True\<rparr>" and ?d2.0 = ?d2]
  from T ctor_fresh n b k obtain d' where
    sc: "Transaction_scope (ref_exec journal) ?body fresh_db =
           Left (Inl (SQLiteException ''syntax error'')) d'"
    and st: "store d' = store fresh_db" and sn: "snapshot d' = None"
    and iss: "issued d' = issued ?d2 @ [''ROLLBACK;'']"
    by blast
  from st sn iss have "d' = \<lparr>store = [], snapshot = None,
      issued = [''BEGIN;'', ''INSERT 1'', [], ''ROLLBACK;'']\<rparr>"
    by (cases d') (simp add: fresh_db_def)
  with sc have scope: "Transaction_scope (ref_exec journal) ?body fresh_db =
      Left (Inl (SQLiteException ''syntax error''))
        \<lparr>store = [], snapshot = None, issued = [''BEGIN;'', ''INSERT 1'', [], ''ROLLBACK;'']\<rparr>"
    by simp
  from T ctor_fresh c r n b scope show ?thesis
    by blast
qed

text \<open>
  Claim C1 as stated fails in two ways.  Where \<open>commit\<close> was called and threw: in the
  block \<open>db.execute("COMMIT;"); txn.commit();\<close> the call of \<open>commit\<close> throws (no
  transaction is active any more), and the destructor then issues \<open>ROLLBACK\<close>, the fourth
  statement the engine receives.  Where the body ends the transaction itself: in the
  block \<open>db.execute("INSERT 1"); db.execute("COMMIT;");\<close> neither \<open>commit\<close> nor \<open>rollback\<close>
  is called and the destructor issues \<open>ROLLBACK\<close>, but the insertion stays in the
  database, which is not what it was before the block.
\<close>

theorem scope_destruction_counterexample:
  "Transaction_scope (ref_exec journal) (commit_by_hand_then_commit (ref_exec journal)) fresh_db =
     Aborted (SQLiteException ''cannot rollback - no transaction is active'')
       \<lparr>store = [], snapshot = None,
        issued = [''BEGIN;'', ''COMMIT;'', ''COMMIT;'', ''ROLLBACK;'']\<rparr>
   \<and> Transaction_scope (ref_exec journal)
        (statements (ref_exec journal) [''INSERT 1'', ''COMMIT;'']) fresh_db =
     Aborted (SQLiteException ''cannot rollback - no transaction is active'')
       \<lparr>store = [''INSERT 1''], snapshot = None,
        issued = [''BEGIN;'', ''INSERT 1'', ''COMMIT;'', ''ROLLBACK;'']\<rparr>
   \<and> [''INSERT 1''] \<noteq> store fresh_db"
  by (simp add: Transaction_scope_def Transaction_ctor_def Transaction_dtor_def
      Transaction_dtor_body_def commit_by_hand_then_commit_def commit_def statements_def
      execute_def ref_exec_def fresh_db_def journal_def Let_def)

text \<open>
  Claim C4, as amended.  When the scope is still pending and the \<open>ROLLBACK\<close> issued by
  the destructor fails, \<open>execute\<close> throws inside the destructor; nothing catches the
  exception, so it leaves the body of the destructor, which ends the program: the block
  around the scope does not complete, whatever its body had returned or thrown.
\<close>

theorem failed_rollback_in_destructor:
  assumes "active t" and "execute exec ''ROLLBACK;'' db = (Inl e, db')"
  shows "Transaction_dtor_body exec t db = (Inl e, db')
    \<and> Transaction_dtor exec t db = Terminated e db'
    \<and> (Transaction_ctor exec db0 = (Inr t0, db1) \<and> body t0 db1 = (r, t, db) \<longrightarrow>
         Transaction_scope exec body db0 = Aborted e db')"
  using assms
  by (simp add: Transaction_dtor_body_def Transaction_dtor_def Transaction_scope_def)

text \<open>
  The theorem at a pending scope on a connection of the reference engine without an
  active transaction.
\<close>

theorem failed_rollback_in_destructor_witness:
  "active \<lparr>active = True\<rparr>
   \<and> execute (ref_exec journal) ''ROLLBACK;'' fresh_db =
       (Inl (SQLiteException ''cannot rollback - no transaction is active''),
        \<lparr>store = [], snapshot = None, issued = [''ROLLBACK;'']\<rparr>)
   \<and> Transaction_dtor (ref_exec journal) \<lparr>active = True\<rparr> fresh_db =
       Terminated (SQLiteException ''cannot rollback - no transaction is active'')
        \<lparr>store = [], snapshot = None, issued = [''ROLLBACK;'']\<rparr>"
proof -
  have a: "active \<lparr>active = True\<rparr>"
    by simp
  have x: "execute (ref_exec journal) ''ROLLBACK;'' fresh_db =
       (Inl (SQLiteException ''cannot rollback - no transaction is active''),
        \<lparr>store = [], snapshot = None, issued = [''ROLLBACK;'']\<rparr>)"
    by (simp add: execute_def ref_exec_def fresh_db_def Let_def)
  from failed_rollback_in_destructor [OF a x] a x show ?thesis
    by blast
qed

text \<open>
  Claim C4 as stated fails: the body of this block ends the transaction by hand and then
  throws on a statement that is in error; the destructor runs during the unwinding, its
  \<open>ROLLBACK\<close> fails, and the program is terminated with that failure instead of the
  block being left with the exception of the body.
\<close>

theorem failed_rollback_not_swallowed_counterexample:
  "Transaction_scope (ref_exec journal) (statements (ref_exec journal) [''COMMIT;'', []]) fresh_db =
     Aborted (SQLiteException ''cannot rollback - no transaction is active'')
       \<lparr>store = [], snapshot = None, issued = [''BEGIN;'', ''COMMIT;'', [], ''ROLLBACK;'']\<rparr>"
  by (simp add: Transaction_scope_def Transaction_ctor_def Transaction_dtor_def
      Transaction_dtor_body_def statements_def execute_def ref_exec_def fresh_db_def journal_def
      Let_def)

text \<open>
  Claim C9.  When \<open>commit\<close> (or \<open>rollback\<close>) throws on a pending scope, the scope is
  still pending, so that its destructor issues \<open>ROLLBACK\<close>; and a scope that is no longer
  pending after the call is one whose \<open>COMMIT\<close> (or \<open>ROLLBACK\<close>) was executed without
  error.
\<close>

theorem failed_commit_leaves_scope_pending:
  assumes "active t"
  shows "(commit exec t db = (Inl e, t', db') \<longrightarrow>
            active t' \<and> Transaction_dtor_body exec t' db2 = execute exec ''ROLLBACK;'' db2)
    \<and> (rollback exec t db = (Inl e, t', db') \<longrightarrow>
            active t' \<and> Transaction_dtor_body exec t' db2 = execute exec ''ROLLBACK;'' db2)
    \<and> (commit exec t db = (r, t'', db'') \<and> \<not> active t'' \<longrightarrow>
            execute exec ''COMMIT;'' db = (Inr (), db''))
    \<and> (rollback exec t db = (r, t'', db'') \<and> \<not> active t'' \<longrightarrow>
            execute exec ''ROLLBACK;'' db = (Inr (), db''))"
proof (intro conjI impI)
  assume "commit exec t db = (Inl e, t', db')"
  from commit_result [OF this] assms show "active t'"
    by auto
  then show "Transaction_dtor_body exec t' db2 = execute exec ''ROLLBACK;'' db2"
    by (simp add: Transaction_dtor_body_def)
next
  assume "rollback exec t db = (Inl e, t', db')"
  from rollback_result [OF this] assms show "active t'"
    by auto
  then show "Transaction_dtor_body exec t' db2 = execute exec ''ROLLBACK;'' db2"
    by (simp add: Transaction_dtor_body_def)
next
  assume "commit exec t db = (r, t'', db'') \<and> \<not> active t''"
  with assms show "execute exec ''COMMIT;'' db = (Inr (), db'')"
    by (cases rule: execute_cases [of exec "''COMMIT;''" db]) (auto simp: commit_def)
next
  assume "rollback exec t db = (r, t'', db'') \<and> \<not> active t''"
  with assms show "execute exec ''ROLLBACK;'' db = (Inr (), db'')"
    by (cases rule: execute_cases [of exec "''ROLLBACK;''" db]) (auto simp: rollback_def)
qed

text \<open>
  The theorem on the reference engine: \<open>commit\<close> and \<open>rollback\<close> throw when no transaction
  is active, and return when one is.
\<close>

theorem failed_commit_leaves_scope_pending_witness:
  "active \<lparr>active = True\<rparr>
   \<and> commit (ref_exec journal) \<lparr>active = True\<rparr> fresh_db =
       (Inl (SQLiteException ''cannot commit - no transaction is active''), \<lparr>active = True\<rparr>,
        \<lparr>store = [], snapshot = None, issued = [''COMMIT;'']\<rparr>)
   \<and> rollback (ref_exec journal) \<lparr>active = True\<rparr> fresh_db =
       (Inl (SQLiteException ''cannot rollback - no transaction is active''), \<lparr>active = True\<rparr>,
        \<lparr>store = [], snapshot = None, issued = [''ROLLBACK;'']\<rparr>)
   \<and> Transaction_dtor_body (ref_exec journal) \<lparr>active = True\<rparr>
        \<lparr>store = [], snapshot = None, issued = [''COMMIT;'']\<rparr> =
       execute (ref_exec journal) ''ROLLBACK;'' \<lparr>store = [], snapshot = None, issued = [''COMMIT;'']\<rparr>"
proof -
  have a: "active \<lparr>active = True\<rparr>"
    by simp
  have c: "commit (ref_exec journal) \<lparr>active = True\<rparr> fresh_db =
       (Inl (SQLiteException ''cannot commit - no transaction is active''), \<lparr>active = True\<rparr>,
        \<lparr>store = [], snapshot = None, issued = [''COMMIT;'']\<rparr>)"
    by (simp add: commit_def execute_def ref_exec_def fresh_db_def Let_def)
  have r: "rollback (ref_exec journal) \<lparr>active = True\<rparr> fresh_db =
       (Inl (SQLiteException ''cannot rollback - no transaction is active''), \<lparr>active = True\<rparr>,
        \<lparr>store = [], snapshot = None, issued = [''ROLLBACK;'']\<rparr>)"
    by (simp add: rollback_def execute_def ref_exec_def fresh_db_def Let_def)
  from failed_commit_leaves_scope_pending [OF a, of "ref_exec journal" fresh_db
      "SQLiteException ''cannot commit - no transaction is active''" "\<lparr>active = True\<rparr>"
      "\<lparr>store = [], snapshot = None, issued = [''COMMIT;'']\<rparr>"
      "\<lparr>store = [], snapshot = None, issued = [''COMMIT;'']\<rparr>"] a c r
  show ?thesis
    by blast
qed


subsection \<open>Facts about the loops\<close>

lemma forEachRow_row:
  assumes "sqlite3_step E h = (SQLITE_ROW, r)" and "fn r u = (Inr (), r', u')"
  shows "forEachRow E fn h u = forEachRow E fn r' u'"
  by (subst forEachRow.simps) (simp add: step_def assms)

lemma forEachRow_done:
  assumes "sqlite3_step E h = (SQLITE_DONE, hx)"
  shows "forEachRow E fn h u = Some (Inr (), snd (sqlite3_reset E hx), u)"
  by (subst forEachRow.simps) (simp add: step_def reset_def assms)

lemma forEachRow_step_throws:
  assumes "step E h = (Inl e, h1)"
  shows "forEachRow E fn h u = Some (Inl e, h1, u)"
  by (subst forEachRow.simps) (simp add: assms)

lemma forEachRow_callback_throws:
  assumes "step E h = (Inr True, h1)" and "fn h1 u = (Inl e, h2, u2)"
  shows "forEachRow E fn h u = Some (Inl e, h2, u2)"
  by (subst forEachRow.simps) (simp add: assms)

lemma forEachRow_finishes:
  assumes "step E h = (Inr False, h1)"
  shows "forEachRow E fn h u = Some (Inr (), snd (sqlite3_reset E h1), u)"
  by (subst forEachRow.simps) (simp add: assms reset_def)

lemma forEachRow_reading:
  "produces E h rs hx \<Longrightarrow>
   forEachRow E (reading g) h u = Some (Inr (), snd (sqlite3_reset E hx), foldl (\<lambda>u r. g r u) u rs)"
proof (induction rs arbitrary: h u)
  case Nil
  then show ?case
    by (simp add: forEachRow_done)
next
  case (Cons r rs)
  from Cons.prems have st: "sqlite3_step E h = (SQLITE_ROW, r)" and p: "produces E r rs hx"
    by simp_all
  have rd: "reading g r u = (Inr (), r, g r u)"
    by (simp add: reading_def)
  show ?case
    using forEachRow_row [where fn = "reading g", OF st rd] Cons.IH [OF p, of "g r u"] by simp
qed

lemma counting_reading: "counting = reading (\<lambda>r. Suc)"
  by (rule ext, rule ext) (simp add: counting_def reading_def)

lemma collect_reading: "collect get = reading (\<lambda>r res. res @ [get r])"
  by (rule ext, rule ext) (simp add: collect_def reading_def)

lemma foldl_Suc: "foldl (\<lambda>n r. Suc n) k rs = k + length rs"
  by (induction rs arbitrary: k) simp_all

lemma foldl_snoc: "foldl (\<lambda>res r. res @ [get r]) acc rs = acc @ map get rs"
  by (induction rs arbitrary: acc) simp_all

lemma rounds_forEachRow:
  "rounds E fn n h u = Some (h', u') \<Longrightarrow> forEachRow E fn h u = forEachRow E fn h' u'"
proof (induction n arbitrary: h u)
  case 0
  then show ?case by simp
next
  case (Suc n)
  then show ?case
    by (subst forEachRow.simps) (auto split: prod.splits sum.splits bool.splits if_splits)
qed

subsection \<open>Facts about the reference statement\<close>

lemma ref_step_HasRow: "cursor k = HasRow \<Longrightarrow> sqlite3_step ref_sqlite3 k = ref_advance k"
  by (simp add: ref_sqlite3_def ref_step_def)

lemma ref_step_Ready:
  "cursor s = Ready \<Longrightarrow> program s (bound s) (database s) = (evs, st) \<Longrightarrow>
   sqlite3_step ref_sqlite3 s = ref_advance (s\<lparr>database := st, pending := evs\<rparr>)"
  by (simp add: ref_sqlite3_def ref_step_def)

lemma ref_advance_Nil: "pending k = [] \<Longrightarrow> ref_advance k = (SQLITE_DONE, k\<lparr>cursor := Exhausted\<rparr>)"
  by (simp add: ref_advance_def)

lemma ref_advance_Row:
  "pending k = Row r # evs \<Longrightarrow>
   ref_advance k = (SQLITE_ROW, k\<lparr>cursor := HasRow, pending := evs, current := r\<rparr>)"
  by (simp add: ref_advance_def)

lemma length_visited: "length (visited k rows) = length rows"
  by (induction rows arbitrary: k) (simp_all add: Let_def)

lemma ref_parameter_index_0:
  "Some name \<notin> set ps \<Longrightarrow> ref_parameter_index ps name = 0"
proof (induction ps)
  case Nil
  show ?case by simp
next
  case (Cons p ps)
  then have "p \<noteq> Some name" and "ref_parameter_index ps name = 0"
    by auto
  then show ?case by simp
qed

lemma ref_produces:
  "pending k = map Row rows \<Longrightarrow> sqlite3_step ref_sqlite3 h = ref_advance k \<Longrightarrow>
   produces ref_sqlite3 h (visited k rows) ((last (k # visited k rows))\<lparr>cursor := Exhausted\<rparr>)"
proof (induction rows arbitrary: h k)
  case Nil
  then show ?case
    by (simp add: ref_advance_Nil)
next
  case (Cons r rs)
  let ?k = "k\<lparr>cursor := HasRow, pending := map Row rs, current := r\<rparr>"
  from Cons.prems(1) have "pending k = Row r # map Row rs"
    by simp
  from ref_advance_Row [OF this] Cons.prems(2)
  have st: "sqlite3_step ref_sqlite3 h = (SQLITE_ROW, ?k)"
    by simp
  have c: "cursor ?k = HasRow" and p: "pending ?k = map Row rs"
    by simp_all
  have "produces ref_sqlite3 ?k (visited ?k rs) ((last (?k # visited ?k rs))\<lparr>cursor := Exhausted\<rparr>)"
    by (rule Cons.IH [OF p ref_step_HasRow [OF c]])
  with st show ?case
    by (simp add: Let_def)
qed


lemma bound_last_visited: "bound (last (k # visited k rows)) = bound k"
proof (induction rows arbitrary: k)
  case Nil
  show ?case by simp
next
  case (Cons r rs)
  let ?k = "k\<lparr>cursor := HasRow, pending := map Row rs, current := r\<rparr>"
  have "last (k # visited k (r # rs)) = last (?k # visited ?k rs)"
    by (simp add: Let_def)
  with Cons.IH [of ?k] show ?case
    by simp
qed

lemma ref_reset_state:
  "snd (sqlite3_reset ref_sqlite3 s) = s\<lparr>cursor := Ready, pending := []\<rparr>"
  by (simp add: ref_sqlite3_def ref_reset_def)

subsection \<open>column and mapRows\<close>

lemma col_to_each:
  assumes "column_loop E get h res = Some y"
  shows "\<exists>z. forEachRow E (collect get) h res = Some z \<and> unwrap z = y"
proof (rule column_loop.raw_induct [where P = "\<lambda>E get h res y.
         \<exists>z. forEachRow E (collect get) h res = Some z \<and> unwrap z = y", OF _ assms], goal_cases)
  case (1 f E get stmt res y)
  note IH = 1(1) and body = 1(2)
  obtain r stmt1 where st: "step E stmt = (r, stmt1)"
    by (cases "step E stmt")
  show ?case
  proof (cases r)
    case (Inl e)
    with st body show ?thesis
      by (subst forEachRow.simps) auto
  next
    case (Inr has_row)
    show ?thesis
    proof (cases has_row)
      case True
      with st Inr body have "f E get stmt1 (res @ [get stmt1]) = Some y"
        by simp
      from IH [OF this] st Inr True show ?thesis
        by (subst forEachRow.simps) (simp add: collect_def)
    next
      case False
      with st Inr body show ?thesis
        by (subst forEachRow.simps) (auto simp: reset_def)
    qed
  qed
qed

lemma each_to_col:
  assumes "forEachRow E fn h res = Some z"
  shows "fn = collect get \<longrightarrow> column_loop E get h res = Some (unwrap z)"
proof (rule forEachRow.raw_induct [where P = "\<lambda>E fn h res z.
         fn = collect get \<longrightarrow> column_loop E get h res = Some (unwrap z)", OF _ assms], goal_cases)
  case (1 f E fn stmt u y)
  note IH = 1(1) and body = 1(2)
  show ?case
  proof
    assume fn: "fn = collect get"
    obtain r stmt1 where st: "step E stmt = (r, stmt1)"
      by (cases "step E stmt")
    show "column_loop E get stmt u = Some (unwrap y)"
    proof (cases r)
      case (Inl e)
      with st body show ?thesis
        by (subst column_loop.simps) auto
    next
      case (Inr has_row)
      show ?thesis
      proof (cases has_row)
        case True
        with st Inr body fn have "f E fn stmt1 (u @ [get stmt1]) = Some y"
          by (simp add: collect_def)
        from IH [OF this] fn st Inr True show ?thesis
          by (subst column_loop.simps) simp
      next
        case False
        with st Inr body show ?thesis
          by (subst column_loop.simps) (auto simp: reset_def)
      qed
    qed
  qed
qed

lemma column_loop_forEachRow:
  "column_loop E get h res = map_option unwrap (forEachRow E (collect get) h res)"
proof (cases "forEachRow E (collect get) h res")
  case None
  show ?thesis
  proof (cases "column_loop E get h res")
    case None
    with \<open>forEachRow E (collect get) h res = None\<close> show ?thesis by simp
  next
    case (Some y)
    from col_to_each [OF this] None show ?thesis by simp
  qed
next
  case (Some z)
  from each_to_col [OF this, of get] Some show ?thesis by simp
qed

lemma mapRows_extracting:
  "mapRows E (extracting get) h = map_option unwrap (forEachRow E (collect get) h [])"
proof -
  have "(\<lambda>row results.
           case extracting get row of
             (Inl e, row') \<Rightarrow> (Inl e, row', results)
           | (Inr x, row') \<Rightarrow> (Inr (), row', results @ [x])) = collect get"
    by (rule ext, rule ext) (simp add: extracting_def collect_def)
  then have "mapRows E (extracting get) h =
      (case forEachRow E (collect get) h [] of
         None \<Rightarrow> None
       | Some (Inl e, stmt', results) \<Rightarrow> Some (Inl e, stmt')
       | Some (Inr _, stmt', results) \<Rightarrow> Some (Inr results, stmt'))"
    by (simp add: mapRows_def)
  also have "\<dots> = map_option unwrap (forEachRow E (collect get) h [])"
    by (cases "forEachRow E (collect get) h []") (auto split: sum.splits)
  finally show ?thesis .
qed

lemma column_loop_mapRows: "column_loop E get h [] = mapRows E (extracting get) h"
  by (simp add: column_loop_forEachRow mapRows_extracting)

lemma column_loop_produces:
  assumes "produces E h rs hx"
  shows "column_loop E get h [] = Some (Inr (map get rs), snd (sqlite3_reset E hx))"
  using forEachRow_reading [OF assms, of "\<lambda>r res. res @ [get r]" "[]"]
  by (simp add: column_loop_forEachRow collect_reading foldl_snoc)

subsection \<open>Claims on forEachRow\<close>

text \<open>
  Claim C2.  When the query produces the rows \<open>rs\<close> (the states of the statement at its
  \<open>length rs\<close> rows) and is then done, \<open>forEachRow\<close> with a callback that reads the row
  returns normally, has called the callback on each of these states in order, so
  \<open>length rs\<close> times, and leaves the statement as the engine's reset leaves the exhausted
  statement.  On the reference engine: from \<open>Ready\<close>, with a query that yields \<open>rows\<close>, the
  callback is called \<open>length rows\<close> times and the statement is \<open>Ready\<close> again, with the
  values bound as before.
\<close>

theorem forEachRow_calls_fn_once_per_row:
  "(produces E h rs hx \<longrightarrow>
      forEachRow E (reading g) h u =
        Some (Inr (), snd (sqlite3_reset E hx), foldl (\<lambda>u r. g r u) u rs)
      \<and> forEachRow E counting h 0 = Some (Inr (), snd (sqlite3_reset E hx), length rs))
   \<and> (cursor s = Ready \<and> program s (bound s) (database s) = (map Row rows, st) \<longrightarrow>
        (\<exists>s'. forEachRow ref_sqlite3 counting s 0 = Some (Inr (), s', length rows)
           \<and> cursor s' = Ready \<and> bound s' = bound s))"
proof (intro conjI impI)
  assume p: "produces E h rs hx"
  then show "forEachRow E (reading g) h u =
      Some (Inr (), snd (sqlite3_reset E hx), foldl (\<lambda>u r. g r u) u rs)"
    by (rule forEachRow_reading)
  from forEachRow_reading [OF p, of "\<lambda>r. Suc" 0]
  show "forEachRow E counting h 0 = Some (Inr (), snd (sqlite3_reset E hx), length rs)"
    by (simp add: counting_reading foldl_Suc)
next
  assume a: "cursor s = Ready \<and> program s (bound s) (database s) = (map Row rows, st)"
  let ?k = "s\<lparr>database := st, pending := map Row rows\<rparr>"
  let ?hx = "(last (?k # visited ?k rows))\<lparr>cursor := Exhausted\<rparr>"
  let ?s' = "snd (sqlite3_reset ref_sqlite3 ?hx)"
  from a have "sqlite3_step ref_sqlite3 s = ref_advance ?k"
    by (simp add: ref_step_Ready)
  moreover have "pending ?k = map Row rows"
    by simp
  ultimately have "produces ref_sqlite3 s (visited ?k rows) ?hx"
    by (rule ref_produces [rotated])
  from forEachRow_reading [OF this, of "\<lambda>r. Suc" 0]
  have "forEachRow ref_sqlite3 counting s 0 = Some (Inr (), ?s', length rows)"
    by (simp add: counting_reading foldl_Suc length_visited)
  moreover have "cursor ?s' = Ready"
    by (simp add: ref_reset_state)
  moreover have "bound ?s' = bound s"
    using bound_last_visited [of ?k rows] by (simp add: ref_reset_state)
  ultimately show "\<exists>s'. forEachRow ref_sqlite3 counting s 0 = Some (Inr (), s', length rows)
           \<and> cursor s' = Ready \<and> bound s' = bound s"
    by blast
qed

text \<open>
  The theorem at the query \<open>players_stmt\<close> with its two rows: a callback collecting
  column 0 gets 1 and 2, and the counting callback is called twice.
\<close>

theorem forEachRow_calls_fn_once_per_row_witness:
  "cursor players_stmt = Ready
   \<and> program players_stmt (bound players_stmt) (database players_stmt) =
       (map Row [player 1 (Some ''Alice''), player 2 None], ())
   \<and> produces ref_sqlite3 players_stmt
        (visited players_stmt [player 1 (Some ''Alice''), player 2 None])
        ((last (visited players_stmt [player 1 (Some ''Alice''), player 2 None]))
           \<lparr>cursor := Exhausted\<rparr>)
   \<and> (\<exists>s'. forEachRow ref_sqlite3 (reading (\<lambda>r ids. ids @ [getInt ref_sqlite3 0 r])) players_stmt [] =
               Some (Inr (), s', [1, 2]))
   \<and> (\<exists>s'. forEachRow ref_sqlite3 counting players_stmt 0 = Some (Inr (), s', 2)
         \<and> cursor s' = Ready \<and> bound s' = bound players_stmt)"
proof -
  let ?rows = "[player 1 (Some ''Alice''), player 2 None]"
  let ?rs = "visited players_stmt ?rows"
  let ?hx = "(last ?rs)\<lparr>cursor := Exhausted\<rparr>"
  have a: "cursor players_stmt = Ready
     \<and> program players_stmt (bound players_stmt) (database players_stmt) = (map Row ?rows, ())"
    by (simp add: players_stmt_def)
  have p: "produces ref_sqlite3 players_stmt ?rs ?hx"
    by (simp add: players_stmt_def ref_sqlite3_def ref_step_def ref_advance_def Let_def)
  have f: "foldl (\<lambda>ids r. ids @ [getInt ref_sqlite3 0 r]) [] ?rs = [1, 2]"
    by (simp add: getInt_def ref_sqlite3_def player_def Let_def)
  note T = forEachRow_calls_fn_once_per_row [where E = ref_sqlite3 and h = players_stmt
      and rs = ?rs and hx = ?hx and g = "\<lambda>r ids. ids @ [getInt ref_sqlite3 0 r]" and u = "[]"
      and s = players_stmt and rows = ?rows and st = "()"]
  from T a p have "forEachRow ref_sqlite3 (reading (\<lambda>r ids. ids @ [getInt ref_sqlite3 0 r])) players_stmt [] =
      Some (Inr (), snd (sqlite3_reset ref_sqlite3 ?hx), foldl (\<lambda>ids r. ids @ [getInt ref_sqlite3 0 r]) [] ?rs)"
    by blast
  with f have 1: "\<exists>s'. forEachRow ref_sqlite3 (reading (\<lambda>r ids. ids @ [getInt ref_sqlite3 0 r])) players_stmt [] =
               Some (Inr (), s', [1, 2])"
    by simp
  from T a have "\<exists>s'. forEachRow ref_sqlite3 counting players_stmt 0 =
           Some (Inr (), s', length ?rows)
         \<and> cursor s' = Ready \<and> bound s' = bound players_stmt"
    by blast
  then have 2: "\<exists>s'. forEachRow ref_sqlite3 counting players_stmt 0 = Some (Inr (), s', 2)
         \<and> cursor s' = Ready \<and> bound s' = bound players_stmt"
    by (simp add: numeral_2_eq_2)
  from a p 1 2 show ?thesis
    by blast
qed


text \<open>
  Claim C3, as amended.  After any number of rounds of the loop, \<open>forEachRow\<close> ends in one
  of three ways.  When \<open>step\<close> reports the end of the rows, the statement is reset and the
  call returns.  When \<open>step\<close> throws, or the callback throws, the exception leaves
  \<open>forEachRow\<close> with the statement in the state that the throwing call left: no reset is
  performed.
\<close>

theorem forEachRow_exits:
  assumes "rounds E fn n h u = Some (h1, u1)"
  shows "(step E h1 = (Inr False, h2) \<longrightarrow>
            forEachRow E fn h u = Some (Inr (), snd (sqlite3_reset E h2), u1))
    \<and> (step E h1 = (Inl e, h2) \<longrightarrow> forEachRow E fn h u = Some (Inl e, h2, u1))
    \<and> (step E h1 = (Inr True, h2) \<and> fn h2 u1 = (Inl e, h3, u3) \<longrightarrow>
            forEachRow E fn h u = Some (Inl e, h3, u3))"
  using rounds_forEachRow [OF assms]
  by (simp add: forEachRow_finishes forEachRow_step_throws forEachRow_callback_throws)

text \<open>
  The three exits on the reference engine: a query read to its end, a query whose second
  step fails, and a callback that throws at the first row.
\<close>

theorem forEachRow_exits_witness:
  "rounds ref_sqlite3 counting 2 players_stmt 0 =
     Some (players_stmt\<lparr>cursor := HasRow, current := player 2 None\<rparr>, 2)
   \<and> step ref_sqlite3 (players_stmt\<lparr>cursor := HasRow, current := player 2 None\<rparr>) =
       (Inr False, players_stmt\<lparr>cursor := Exhausted, current := player 2 None\<rparr>)
   \<and> forEachRow ref_sqlite3 counting players_stmt 0 =
       Some (Inr (), players_stmt\<lparr>current := player 2 None\<rparr>, 2)
   \<and> rounds ref_sqlite3 counting 1 failing_stmt 0 =
       Some (failing_stmt\<lparr>cursor := HasRow, pending := [Fail ''disk I/O error''],
               current := player 1 (Some ''Alice'')\<rparr>, 1)
   \<and> forEachRow ref_sqlite3 counting failing_stmt 0 =
       Some (Inl (SQLiteException ''disk I/O error''),
             failing_stmt\<lparr>cursor := Exhausted, current := player 1 (Some ''Alice''),
               errmsg := ''disk I/O error''\<rparr>, 1)
   \<and> rounds ref_sqlite3 throwing 0 players_stmt 0 = Some (players_stmt, 0)
   \<and> forEachRow ref_sqlite3 throwing players_stmt 0 =
       Some (Inl (CallbackException ''stop''),
             players_stmt\<lparr>cursor := HasRow, pending := [Row (player 2 None)],
               current := player 1 (Some ''Alice'')\<rparr>, 0)"
proof -
  let ?h1 = "players_stmt\<lparr>cursor := HasRow, current := player 2 None\<rparr>"
  let ?h2 = "players_stmt\<lparr>cursor := Exhausted, current := player 2 None\<rparr>"
  let ?f1 = "failing_stmt\<lparr>cursor := HasRow, pending := [Fail ''disk I/O error''],
               current := player 1 (Some ''Alice'')\<rparr>"
  let ?f2 = "failing_stmt\<lparr>cursor := Exhausted, current := player 1 (Some ''Alice''),
               errmsg := ''disk I/O error''\<rparr>"
  let ?p1 = "players_stmt\<lparr>cursor := HasRow, pending := [Row (player 2 None)],
               current := player 1 (Some ''Alice'')\<rparr>"
  have r1: "rounds ref_sqlite3 counting 2 players_stmt 0 = Some (?h1, 2)"
    by (simp add: numeral_2_eq_2 step_def ref_sqlite3_def ref_step_def ref_advance_def
        players_stmt_def counting_def)
  have s1: "step ref_sqlite3 ?h1 = (Inr False, ?h2)"
    by (simp add: step_def ref_sqlite3_def ref_step_def ref_advance_def players_stmt_def)
  have x1: "snd (sqlite3_reset ref_sqlite3 ?h2) = players_stmt\<lparr>current := player 2 None\<rparr>"
    by (simp add: ref_sqlite3_def ref_reset_def players_stmt_def)
  have r2: "rounds ref_sqlite3 counting 1 failing_stmt 0 = Some (?f1, 1)"
    by (simp add: step_def ref_sqlite3_def ref_step_def ref_advance_def
        failing_stmt_def counting_def)
  have s2: "step ref_sqlite3 ?f1 = (Inl (SQLiteException ''disk I/O error''), ?f2)"
    by (simp add: step_def ref_sqlite3_def ref_step_def ref_advance_def failing_stmt_def)
  have r3: "rounds ref_sqlite3 throwing 0 players_stmt 0 = Some (players_stmt, 0)"
    by simp
  have s3: "step ref_sqlite3 players_stmt = (Inr True, ?p1)
      \<and> throwing ?p1 0 = (Inl (CallbackException ''stop''), ?p1, 0)"
    by (simp add: step_def ref_sqlite3_def ref_step_def ref_advance_def players_stmt_def
        throwing_def)
  from forEachRow_exits [where ?h2.0 = ?h2, OF r1] s1 x1
  have 1: "forEachRow ref_sqlite3 counting players_stmt 0 =
       Some (Inr (), players_stmt\<lparr>current := player 2 None\<rparr>, 2)"
    by simp
  from forEachRow_exits [where e = "SQLiteException ''disk I/O error''" and ?h2.0 = ?f2, OF r2] s2
  have 2: "forEachRow ref_sqlite3 counting failing_stmt 0 =
       Some (Inl (SQLiteException ''disk I/O error''), ?f2, 1)"
    by blast
  from forEachRow_exits [where e = "CallbackException ''stop''" and ?h2.0 = ?p1 and ?h3.0 = ?p1
      and ?u3.0 = 0, OF r3] s3
  have 3: "forEachRow ref_sqlite3 throwing players_stmt 0 =
       Some (Inl (CallbackException ''stop''), ?p1, 0)"
    by blast
  from r1 s1 1 r2 2 r3 3 show ?thesis
    by blast
qed

text \<open>
  Claim C3 as stated fails: with a callback that throws at the first row of
  \<open>players_stmt\<close>, the exception leaves \<open>forEachRow\<close> and the cursor is \<open>HasRow\<close>, not
  \<open>Ready\<close>.
\<close>

theorem forEachRow_skips_reset_counterexample:
  "map_option fst (forEachRow ref_sqlite3 throwing players_stmt 0) =
     Some (Inl (CallbackException ''stop''))
   \<and> map_option (cursor \<circ> fst \<circ> snd) (forEachRow ref_sqlite3 throwing players_stmt 0) =
     Some HasRow
   \<and> HasRow \<noteq> Ready"
  by (subst forEachRow.simps, subst forEachRow.simps)
    (simp add: step_def ref_sqlite3_def ref_step_def ref_advance_def players_stmt_def
      throwing_def)

subsection \<open>Claims on binding, reset, the getters and column\<close>

text \<open>
  Claim C5.  When the engine finds no parameter of the given name (the index it returns
  is 0), each of the three named binds returns normally and leaves the statement exactly
  as it was, so the bound values and the cursor are unchanged.  On the reference engine
  this is the case of a name that is not among the parameters of the statement.
\<close>

theorem unknown_name_bind_is_noop:
  "(sqlite3_bind_parameter_index E h name = 0 \<longrightarrow>
      bind_name_int E name i h = (Inr (), h)
      \<and> bind_name_double E name d h = (Inr (), h)
      \<and> bind_name_text E name txt h = (Inr (), h))
   \<and> (Some name \<notin> set (params s) \<longrightarrow>
      bind_name_int ref_sqlite3 name i s = (Inr (), s)
      \<and> bind_name_double ref_sqlite3 name d s = (Inr (), s)
      \<and> bind_name_text ref_sqlite3 name txt s = (Inr (), s))"
proof (intro conjI impI)
  assume "Some name \<notin> set (params s)"
  then have z: "sqlite3_bind_parameter_index ref_sqlite3 s name = 0"
    by (simp add: ref_sqlite3_def ref_parameter_index_0)
  then show "bind_name_int ref_sqlite3 name i s = (Inr (), s)"
    by (simp add: bind_name_int_def)
  from z show "bind_name_double ref_sqlite3 name d s = (Inr (), s)"
    by (simp add: bind_name_double_def)
  from z show "bind_name_text ref_sqlite3 name txt s = (Inr (), s)"
    by (simp add: bind_name_text_def)
qed (simp_all add: bind_name_int_def bind_name_double_def bind_name_text_def)

text \<open>
  The theorem at \<open>insert_stmt\<close>, whose only parameter is \<open>:v\<close>, and the name \<open>:typo\<close>.
\<close>

theorem unknown_name_bind_is_noop_witness:
  "sqlite3_bind_parameter_index ref_sqlite3 insert_stmt '':typo'' = 0
   \<and> Some '':typo'' \<notin> set (params insert_stmt)
   \<and> bind_name_int ref_sqlite3 '':typo'' 7 insert_stmt = (Inr (), insert_stmt)
   \<and> bind_name_double ref_sqlite3 '':typo'' 2.5 insert_stmt = (Inr (), insert_stmt)
   \<and> bind_name_text ref_sqlite3 '':typo'' ''a'' insert_stmt = (Inr (), insert_stmt)"
proof -
  have a: "sqlite3_bind_parameter_index ref_sqlite3 insert_stmt '':typo'' = 0"
    by (simp add: ref_sqlite3_def insert_stmt_def)
  have b: "Some '':typo'' \<notin> set (params insert_stmt)"
    by (simp add: insert_stmt_def)
  from unknown_name_bind_is_noop [of ref_sqlite3 insert_stmt "'':typo''" 7 "2.5" "''a''"
      insert_stmt] a b
  show ?thesis
    by blast
qed

text \<open>
  Claim C10.  Each of the three positional binds returns normally, with the statement in
  the state that the engine's bind function left, whatever status code that function
  returned.  On the reference engine an index out of range makes the engine report
  \<open>SQLITE_RANGE\<close> and change nothing, and the bind of rdb.h returns normally all the same,
  with the statement unchanged.
\<close>

theorem positional_bind_never_throws:
  "bind_int E index i h = (Inr (), snd (sqlite3_bind_int E h index i))
   \<and> bind_double E index d h = (Inr (), snd (sqlite3_bind_double E h index d))
   \<and> bind_text E index str h = (Inr (), snd (sqlite3_bind_text E h index str))
   \<and> (\<not> (1 \<le> index \<and> index \<le> int (length (params s))) \<longrightarrow>
        fst (sqlite3_bind_int ref_sqlite3 s index i) = SQLITE_RANGE
        \<and> fst (sqlite3_bind_double ref_sqlite3 s index d) = SQLITE_RANGE
        \<and> fst (sqlite3_bind_text ref_sqlite3 s index str) = SQLITE_RANGE
        \<and> bind_int ref_sqlite3 index i s = (Inr (), s)
        \<and> bind_double ref_sqlite3 index d s = (Inr (), s)
        \<and> bind_text ref_sqlite3 index str s = (Inr (), s))"
  by (simp add: bind_int_def bind_double_def bind_text_def ref_sqlite3_def ref_bind_def)

text \<open>
  The theorem at \<open>insert_stmt\<close>, which has one parameter, and the indices 7, 0 and -1.
\<close>

theorem positional_bind_never_throws_witness:
  "\<not> (1 \<le> (7::int) \<and> 7 \<le> int (length (params insert_stmt)))
   \<and> fst (sqlite3_bind_int ref_sqlite3 insert_stmt 7 5) = SQLITE_RANGE
   \<and> bind_int ref_sqlite3 7 5 insert_stmt = (Inr (), insert_stmt)
   \<and> bind_double ref_sqlite3 0 2.5 insert_stmt = (Inr (), insert_stmt)
   \<and> bind_text ref_sqlite3 (- 1) ''a'' insert_stmt = (Inr (), insert_stmt)"
proof -
  have a: "\<not> (1 \<le> (7::int) \<and> 7 \<le> int (length (params insert_stmt)))"
    "\<not> (1 \<le> (0::int) \<and> 0 \<le> int (length (params insert_stmt)))"
    "\<not> (1 \<le> (- 1::int) \<and> - 1 \<le> int (length (params insert_stmt)))"
    by (simp_all add: insert_stmt_def)
  note T = positional_bind_never_throws [where E = ref_sqlite3 and h = insert_stmt
      and s = insert_stmt and i = "5" and d = "2.5" and str = "[CHR ''a'']"]
  note T1 = T [where index = "7"] and T2 = T [where index = "0"] and T3 = T [where index = "- 1"]
  from T1 T2 T3 a show ?thesis
    by blast
qed

text \<open>
  Claim C8.  When the engine returns a null pointer for the text of a column, \<open>getText\<close>
  returns the empty string (its result is a string in every case).  On the reference
  engine this is the case of a statement at a row whose column is NULL.
\<close>

theorem getText_of_null_is_empty:
  "(sqlite3_column_text E h col = None \<longrightarrow> getText E col h = [])
   \<and> (cursor s = HasRow \<and> as_text (current s) col = None \<longrightarrow> getText ref_sqlite3 col s = [])"
  by (simp add: getText_def ref_sqlite3_def)

text \<open>
  The theorem at the second row of \<open>players_stmt\<close>, whose column 1 is NULL.
\<close>

theorem getText_of_null_is_empty_witness:
  "cursor (players_stmt\<lparr>cursor := HasRow, current := player 2 None\<rparr>) = HasRow
   \<and> as_text (current (players_stmt\<lparr>cursor := HasRow, current := player 2 None\<rparr>)) 1 = None
   \<and> sqlite3_column_text ref_sqlite3 (players_stmt\<lparr>cursor := HasRow, current := player 2 None\<rparr>) 1 = None
   \<and> getText ref_sqlite3 1 (players_stmt\<lparr>cursor := HasRow, current := player 2 None\<rparr>) = []"
proof -
  let ?s = "players_stmt\<lparr>cursor := HasRow, current := player 2 None\<rparr>"
  have a: "cursor ?s = HasRow \<and> as_text (current ?s) 1 = None"
    by (simp add: player_def)
  have b: "sqlite3_column_text ref_sqlite3 ?s 1 = None"
    by (simp add: ref_sqlite3_def player_def)
  from getText_of_null_is_empty [of ref_sqlite3 ?s 1 ?s] a b show ?thesis
    by blast
qed

text \<open>
  Claim C7.  \<open>reset\<close> calls the engine's reset and returns normally.  On the reference
  engine, from any state, the cursor is \<open>Ready\<close> afterwards and the parameters and the
  values bound to them are what they were.  In the scenario of \<open>insert_twice\<close> both steps
  complete and the table holds the two rows \<open>a\<close> and \<open>b\<close>, in this order.
\<close>

theorem reset_returns_to_Ready_and_keeps_bindings:
  "reset E h = (Inr (), snd (sqlite3_reset E h))
   \<and> fst (reset ref_sqlite3 s) = Inr ()
   \<and> cursor (snd (reset ref_sqlite3 s)) = Ready
   \<and> bound (snd (reset ref_sqlite3 s)) = bound s
   \<and> params (snd (reset ref_sqlite3 s)) = params s
   \<and> fst (insert_twice insert_stmt) = Inr False
   \<and> fst (snd (insert_twice insert_stmt)) = Inr False
   \<and> database (snd (snd (insert_twice insert_stmt))) = [Text ''a'', Text ''b'']"
proof (intro conjI)
  show "fst (insert_twice insert_stmt) = Inr False"
    by (simp add: insert_twice_def insert_stmt_def bind_name_text_def step_def reset_def
        ref_sqlite3_def ref_bind_def ref_step_def ref_advance_def ref_reset_def Let_def)
  show "fst (snd (insert_twice insert_stmt)) = Inr False"
    by (simp add: insert_twice_def insert_stmt_def bind_name_text_def step_def reset_def
        ref_sqlite3_def ref_bind_def ref_step_def ref_advance_def ref_reset_def Let_def)
  show "database (snd (snd (insert_twice insert_stmt))) = [Text ''a'', Text ''b'']"
    by (simp add: insert_twice_def insert_stmt_def bind_name_text_def step_def reset_def
        ref_sqlite3_def ref_bind_def ref_step_def ref_advance_def ref_reset_def Let_def)
qed (simp_all add: reset_def ref_sqlite3_def ref_reset_def)

text \<open>
  Claim C6.  For each of the three types, \<open>column\<close> at an index returns what \<open>mapRows\<close>
  returns for the mapper that extracts this column with the getter of the type: the same
  result and the same final state of the statement, an exception of \<open>step\<close> included, and
  neither returns when the other does not.  When the query produces the rows \<open>rs\<close> and is
  then done, the result is the column of each row in the order of the rows, and the
  statement is reset.
\<close>

theorem column_is_mapRows_of_one_column:
  "column_int E colIndex h = mapRows E (extracting (getInt E colIndex)) h
   \<and> column_double E colIndex h = mapRows E (extracting (getDouble E colIndex)) h
   \<and> column_text E colIndex h = mapRows E (extracting (getText E colIndex)) h
   \<and> (produces E h rs hx \<longrightarrow>
        column_int E colIndex h = Some (Inr (map (getInt E colIndex) rs), snd (sqlite3_reset E hx))
        \<and> column_double E colIndex h =
            Some (Inr (map (getDouble E colIndex) rs), snd (sqlite3_reset E hx))
        \<and> column_text E colIndex h =
            Some (Inr (map (getText E colIndex) rs), snd (sqlite3_reset E hx)))"
  by (simp add: column_int_def column_double_def column_text_def column_loop_mapRows [symmetric]
      column_loop_produces)

text \<open>
  The theorem at \<open>players_stmt\<close>: column 0 as integers and column 1 as texts, the NULL of
  the second row being the empty string.
\<close>

theorem column_is_mapRows_of_one_column_witness:
  "produces ref_sqlite3 players_stmt
        (visited players_stmt [player 1 (Some ''Alice''), player 2 None])
        ((last (visited players_stmt [player 1 (Some ''Alice''), player 2 None]))
           \<lparr>cursor := Exhausted\<rparr>)
   \<and> column_int ref_sqlite3 0 players_stmt =
       Some (Inr [1, 2], players_stmt\<lparr>current := player 2 None\<rparr>)
   \<and> mapRows ref_sqlite3 (extracting (getInt ref_sqlite3 0)) players_stmt =
       Some (Inr [1, 2], players_stmt\<lparr>current := player 2 None\<rparr>)
   \<and> column_text ref_sqlite3 1 players_stmt =
       Some (Inr [''Alice'', []], players_stmt\<lparr>current := player 2 None\<rparr>)
   \<and> mapRows ref_sqlite3 (extracting (getText ref_sqlite3 1)) players_stmt =
       Some (Inr [''Alice'', []], players_stmt\<lparr>current := player 2 None\<rparr>)"
proof -
  let ?rs = "visited players_stmt [player 1 (Some ''Alice''), player 2 None]"
  let ?hx = "(last ?rs)\<lparr>cursor := Exhausted\<rparr>"
  have p: "produces ref_sqlite3 players_stmt ?rs ?hx"
    by (simp add: players_stmt_def ref_sqlite3_def ref_step_def ref_advance_def Let_def)
  have x: "snd (sqlite3_reset ref_sqlite3 ?hx) = players_stmt\<lparr>current := player 2 None\<rparr>"
    by (simp add: players_stmt_def ref_sqlite3_def ref_reset_def Let_def)
  have i: "map (getInt ref_sqlite3 0) ?rs = [1, 2]"
    by (simp add: getInt_def ref_sqlite3_def player_def Let_def)
  have t: "map (getText ref_sqlite3 1) ?rs = [''Alice'', []]"
    by (simp add: getText_def ref_sqlite3_def player_def Let_def)
  note T = column_is_mapRows_of_one_column [of ref_sqlite3 _ players_stmt ?rs ?hx]
  from T [of 0] p have "column_int ref_sqlite3 0 players_stmt =
      Some (Inr (map (getInt ref_sqlite3 0) ?rs), snd (sqlite3_reset ref_sqlite3 ?hx))"
    by blast
  with x i have ci: "column_int ref_sqlite3 0 players_stmt =
       Some (Inr [1, 2], players_stmt\<lparr>current := player 2 None\<rparr>)"
    by simp
  from T [of 1] p have "column_text ref_sqlite3 1 players_stmt =
      Some (Inr (map (getText ref_sqlite3 1) ?rs), snd (sqlite3_reset ref_sqlite3 ?hx))"
    by blast
  with x t have ct: "column_text ref_sqlite3 1 players_stmt =
       Some (Inr [''Alice'', []], players_stmt\<lparr>current := player 2 None\<rparr>)"
    by simp
  have "column_int ref_sqlite3 0 players_stmt =
      mapRows ref_sqlite3 (extracting (getInt ref_sqlite3 0)) players_stmt"
    using T [of 0] by blast
  with ci have mi: "mapRows ref_sqlite3 (extracting (getInt ref_sqlite3 0)) players_stmt =
       Some (Inr [1, 2], players_stmt\<lparr>current := player 2 None\<rparr>)"
    by simp
  have "column_text ref_sqlite3 1 players_stmt =
      mapRows ref_sqlite3 (extracting (getText ref_sqlite3 1)) players_stmt"
    using T [of 1] by blast
  with ct have mt: "mapRows ref_sqlite3 (extracting (getText ref_sqlite3 1)) players_stmt =
       Some (Inr [''Alice'', []], players_stmt\<lparr>current := player 2 None\<rparr>)"
    by simp
  from p ci mi ct mt show ?thesis
    by blast
qed

end
